theory Spec2Isabelle
  imports Complex_Main
begin

section \<open>The uptime monitor: check dispatch, incident lifecycle, metrics\<close>

text \<open>
  A shallow embedding of \<^verbatim>\<open>src/uptime_monitor.py\<close> (class \<^verbatim>\<open>UptimeMonitor\<close>).
  The SQLite database is an explicit store of three tables, passed in and returned; the
  table \<^verbatim>\<open>status_pages\<close> is never written by the operations modelled here and is
  left out. Everything the code takes from outside (the wall clock, the uuid generator,
  the network probes) is a parameter.

  Conventions:
  \<^item> A \<^verbatim>\<open>datetime\<close> is the number of microseconds since \<^verbatim>\<open>datetime.min\<close>
    (0001-01-01T00:00:00), an \<open>int\<close>. The code stores datetimes as ISO-8601 text and
    compares that text in SQL; for the fixed-width text that \<^verbatim>\<open>isoformat()\<close> writes
    the text order is the chronological order, so the model compares the numbers.
  \<^item> Python floats (response times, percentages) are modelled by \<open>real\<close>: the
    arithmetic is the exact one, rounding is not modelled.
  \<^item> A result dictionary of a probe is a record of optional fields: a key that is absent
    and a key bound to \<^verbatim>\<open>None\<close> both read as \<open>None\<close> through \<^verbatim>\<open>dict.get\<close>.
    Every dictionary the code builds has the key \<^verbatim>\<open>"status"\<close>, so the default of
    \<^verbatim>\<open>result.get("status", "unknown")\<close> is never taken.
\<close>

subsection \<open>Tables\<close>

type_synonym datetime = int

record monitor =
  mon_id :: string
  mon_name :: string
  mon_type :: string
  mon_target :: string
  mon_interval_s :: int
  mon_timeout_s :: int
  mon_retries :: int
  mon_status :: string
  mon_up_since :: "datetime option"
  mon_last_check :: "datetime option"
  mon_response_time_ms :: "real option"
  mon_cert_expiry_days :: "int option"
  mon_tags :: "string list"
  mon_created_at :: "datetime option"

record heartbeat =
  hb_id :: nat
  hb_monitor_id :: string
  hb_timestamp :: datetime
  hb_status :: string
  hb_response_time_ms :: "real option"

record incident =
  inc_id :: string
  inc_monitor_id :: string
  inc_started_at :: datetime
  inc_resolved_at :: "datetime option"
  inc_duration_s :: "int option"
  inc_cause :: string
  inc_notified :: bool

record store =
  monitors :: "monitor list"
  heartbeats :: "heartbeat list"
  incidents :: "incident list"

datatype py_error = IntegrityError | ZeroDivisionError | OverflowError

subsection \<open>The outside world\<close>

text \<open>
  What a probe observes. \<open>http_get\<close> is \<^verbatim>\<open>requests.get(target, timeout=timeout)\<close>
  with the elapsed time the code measures around it; \<open>get_cert_expiry\<close> is
  \<^verbatim>\<open>_get_cert_expiry\<close> (a TLS handshake on port 443); \<open>tcp_connect\<close> is the body of the
  \<^verbatim>\<open>try\<close> of \<^verbatim>\<open>check_tcp\<close> (parsing \<^verbatim>\<open>host[:port]\<close>, then
  \<^verbatim>\<open>socket.create_connection\<close>); \<open>ping\<close> is the \<^verbatim>\<open>ping -c 1 -W 5\<close> subprocess with
  what the regular expression \<^verbatim>\<open>time=([\d.]+)\s*ms\<close> and \<^verbatim>\<open>float\<close> make of its output.
\<close>

datatype http_reply = HttpRaises string | HttpResponse int real
datatype cert_reply = CertRaises string | CertDays int
datatype tcp_reply = TcpRaises string | TcpConnected real
datatype ping_time = NoMatch | TimeMs real | FloatRaises string
datatype ping_reply = PingRaises string | PingExit int ping_time

record world =
  http_get :: "string \<Rightarrow> int \<Rightarrow> http_reply"
  get_cert_expiry :: "string \<Rightarrow> cert_reply"
  tcp_connect :: "string \<Rightarrow> int \<Rightarrow> tcp_reply"
  ping :: "string \<Rightarrow> ping_reply"

text \<open>
  One call of \<^verbatim>\<open>run_check\<close> reads the clock once (\<^verbatim>\<open>datetime.now()\<close>), draws one
  incident id (\<^verbatim>\<open>str(uuid.uuid4())[:8]\<close>) and probes the network.
\<close>

record env =
  now :: datetime
  uuid :: string
  net :: world

subsection \<open>Probe results\<close>

record result =
  res_status :: string
  res_response_time_ms :: "real option"
  res_status_code :: "int option"
  res_cert_expiry_days :: "int option"
  res_reason :: "string option"

definition status_only :: "string \<Rightarrow> result" where
  "status_only st =
     \<lparr>res_status = st, res_response_time_ms = None, res_status_code = None,
      res_cert_expiry_days = None, res_reason = None\<rparr>"

definition with_reason :: "string \<Rightarrow> string \<Rightarrow> result" where
  "with_reason st r = (status_only st)\<lparr>res_reason := Some r\<rparr>"

text \<open>\<^verbatim>\<open>{"status": "error", "reason": "monitor not found"}\<close>\<close>

definition monitor_not_found :: result where
  "monitor_not_found = with_reason ''error'' ''monitor not found''"

text \<open>\<^verbatim>\<open>SELECT ... FROM monitors WHERE id = ?\<close> followed by \<^verbatim>\<open>fetchone()\<close>.\<close>

definition fetch_monitor :: "store \<Rightarrow> string \<Rightarrow> monitor option" where
  "fetch_monitor s monitor_id = find (\<lambda>m. mon_id m = monitor_id) (monitors s)"

definition startswith :: "string \<Rightarrow> string \<Rightarrow> bool" where
  "startswith target p = (take (length p) target = p)"

subsection \<open>The probes\<close>

definition check_http :: "world \<Rightarrow> store \<Rightarrow> string \<Rightarrow> result" where
  "check_http w s monitor_id =
     (case fetch_monitor s monitor_id of
        None \<Rightarrow> monitor_not_found
      | Some row \<Rightarrow>
          (case http_get w (mon_target row) (mon_timeout_s row) of
             HttpRaises e \<Rightarrow> with_reason ''down'' e
           | HttpResponse status_code response_time \<Rightarrow>
               \<lparr>res_status = (if status_code < 400 then ''up'' else ''down''),
                res_response_time_ms = Some response_time,
                res_status_code = Some status_code,
                res_cert_expiry_days =
                  (if startswith (mon_target row) ''https://''
                   then (case get_cert_expiry w (mon_target row) of
                           CertRaises e \<Rightarrow> None
                         | CertDays d \<Rightarrow> Some d)
                   else None),
                res_reason = None\<rparr>))"

definition check_tcp :: "world \<Rightarrow> store \<Rightarrow> string \<Rightarrow> result" where
  "check_tcp w s monitor_id =
     (case fetch_monitor s monitor_id of
        None \<Rightarrow> monitor_not_found
      | Some row \<Rightarrow>
          (case tcp_connect w (mon_target row) (mon_timeout_s row) of
             TcpRaises e \<Rightarrow> with_reason ''down'' e
           | TcpConnected response_time \<Rightarrow>
               (status_only ''up'')\<lparr>res_response_time_ms := Some response_time\<rparr>))"

definition check_ping :: "world \<Rightarrow> store \<Rightarrow> string \<Rightarrow> result" where
  "check_ping w s monitor_id =
     (case fetch_monitor s monitor_id of
        None \<Rightarrow> monitor_not_found
      | Some row \<Rightarrow>
          (case ping w (mon_target row) of
             PingRaises e \<Rightarrow> with_reason ''down'' e
           | PingExit returncode t \<Rightarrow>
               (if returncode = 0
                then (case t of
                        NoMatch \<Rightarrow> (status_only ''up'')\<lparr>res_response_time_ms := Some 0\<rparr>
                      | TimeMs response_time \<Rightarrow>
                          (status_only ''up'')\<lparr>res_response_time_ms := Some response_time\<rparr>
                      | FloatRaises e \<Rightarrow> with_reason ''down'' e)
                else status_only ''down'')))"

definition check_cert :: "world \<Rightarrow> store \<Rightarrow> string \<Rightarrow> result" where
  "check_cert w s monitor_id =
     (case fetch_monitor s monitor_id of
        None \<Rightarrow> monitor_not_found
      | Some row \<Rightarrow>
          (case get_cert_expiry w (mon_target row) of
             CertRaises e \<Rightarrow> with_reason ''error'' e
           | CertDays cert_expiry_days \<Rightarrow>
               (status_only ''up'')\<lparr>res_cert_expiry_days := Some cert_expiry_days\<rparr>))"

subsection \<open>\<^verbatim>\<open>run_check\<close>\<close>

text \<open>The \<^verbatim>\<open>if/elif/else\<close> chain on \<^verbatim>\<open>monitor_type\<close> inside \<^verbatim>\<open>run_check\<close>.\<close>

definition dispatch :: "world \<Rightarrow> store \<Rightarrow> string \<Rightarrow> string \<Rightarrow> result" where
  "dispatch w s monitor_id monitor_type =
     (if monitor_type = ''http'' then check_http w s monitor_id
      else if monitor_type = ''tcp'' then check_tcp w s monitor_id
      else if monitor_type = ''ping'' then check_ping w s monitor_id
      else if monitor_type = ''dns'' then check_ping w s monitor_id
      else status_only ''unknown'')"

text \<open>
  \<^verbatim>\<open>UPDATE monitors SET status = ?, last_check = ?, response_time_ms = ?,
  cert_expiry_days = ?, up_since = ? WHERE id = ?\<close>
\<close>

definition update_monitor ::
  "string \<Rightarrow> string \<Rightarrow> datetime \<Rightarrow> real option \<Rightarrow> int option \<Rightarrow> datetime option \<Rightarrow>
   monitor list \<Rightarrow> monitor list" where
  "update_monitor monitor_id new_status t response_time cert_expiry up_since rows =
     map (\<lambda>r. if mon_id r = monitor_id
               then r\<lparr>mon_status := new_status, mon_last_check := Some t,
                      mon_response_time_ms := response_time,
                      mon_cert_expiry_days := cert_expiry, mon_up_since := up_since\<rparr>
               else r) rows"

text \<open>
  \<^verbatim>\<open>INSERT INTO heartbeats (monitor_id, timestamp, status, response_time_ms)\<close>: the
  \<^verbatim>\<open>AUTOINCREMENT\<close> key is one more than the largest key so far (rows are never deleted).
\<close>

definition insert_heartbeat ::
  "string \<Rightarrow> datetime \<Rightarrow> string \<Rightarrow> real option \<Rightarrow> heartbeat list \<Rightarrow> heartbeat list" where
  "insert_heartbeat monitor_id t new_status response_time rows =
     rows @ [\<lparr>hb_id = Suc (fold max (map hb_id rows) 0), hb_monitor_id = monitor_id,
              hb_timestamp = t, hb_status = new_status,
              hb_response_time_ms = response_time\<rparr>]"

text \<open>
  The row of \<^verbatim>\<open>INSERT INTO incidents (id, monitor_id, started_at, cause)\<close>; the other
  columns take their defaults (\<^verbatim>\<open>NULL\<close>, \<^verbatim>\<open>NULL\<close>, \<^verbatim>\<open>0\<close>). The cause is
  \<^verbatim>\<open>result.get("reason", "Monitor down")\<close>.
\<close>

definition new_incident :: "string \<Rightarrow> string \<Rightarrow> datetime \<Rightarrow> result \<Rightarrow> incident" where
  "new_incident incident_id monitor_id t res =
     \<lparr>inc_id = incident_id, inc_monitor_id = monitor_id, inc_started_at = t,
      inc_resolved_at = None, inc_duration_s = None,
      inc_cause = (case res_reason res of None \<Rightarrow> ''Monitor down'' | Some r \<Rightarrow> r),
      inc_notified = False\<rparr>"

text \<open>
  \<^verbatim>\<open>run_check\<close> returns its value (or the exception raised) and the store as committed.
  The column \<^verbatim>\<open>incidents.id\<close> is the primary key: inserting an id that is already there
  raises \<^verbatim>\<open>sqlite3.IntegrityError\<close> before \<^verbatim>\<open>conn.commit()\<close>, so the update of the
  monitor and the heartbeat of that call are not committed either.
\<close>

definition run_check :: "env \<Rightarrow> store \<Rightarrow> string \<Rightarrow> (py_error + bool) \<times> store" where
  "run_check e s monitor_id =
     (case fetch_monitor s monitor_id of
        None \<Rightarrow> (Inr False, s)
      | Some row \<Rightarrow>
          (let monitor_type = mon_type row;
               old_status = mon_status row;
               res = dispatch (net e) s monitor_id monitor_type;
               new_status = res_status res;
               response_time = res_response_time_ms res;
               cert_expiry = res_cert_expiry_days res;
               up_since = (if new_status = ''up''
                           then (case mon_up_since row of
                                   Some t \<Rightarrow> Some t
                                 | None \<Rightarrow> Some (now e))
                           else None);
               s1 = s\<lparr>monitors := update_monitor monitor_id new_status (now e)
                                     response_time cert_expiry up_since (monitors s)\<rparr>;
               s2 = s1\<lparr>heartbeats := insert_heartbeat monitor_id (now e) new_status
                                        response_time (heartbeats s1)\<rparr>
           in if old_status = ''up'' \<and> new_status = ''down''
              then (if uuid e \<in> set (map inc_id (incidents s2))
                    then (Inl IntegrityError, s)
                    else (Inr (new_status = ''up''),
                          s2\<lparr>incidents := incidents s2 @
                                [new_incident (uuid e) monitor_id (now e) res]\<rparr>))
              else (Inr (new_status = ''up''), s2)))"

subsection \<open>\<^verbatim>\<open>run_all_checks\<close>\<close>

text \<open>
  The loop over the ids selected by \<^verbatim>\<open>SELECT id FROM monitors WHERE status != 'paused'\<close>.
  The \<open>k\<close>-th call of \<^verbatim>\<open>run_check\<close> meets the outside world \<open>envs k\<close>. An exception
  of a call ends the loop; what the earlier calls committed stays.
\<close>

fun run_all_loop ::
  "(nat \<Rightarrow> env) \<Rightarrow> nat \<Rightarrow> string list \<Rightarrow> (string \<rightharpoonup> bool) \<Rightarrow> store \<Rightarrow>
   (py_error + (string \<rightharpoonup> bool)) \<times> store" where
  "run_all_loop envs k [] results s = (Inr results, s)"
| "run_all_loop envs k (monitor_id # rest) results s =
     (case run_check (envs k) s monitor_id of
        (Inl err, s') \<Rightarrow> (Inl err, s')
      | (Inr up, s') \<Rightarrow> run_all_loop envs (Suc k) rest (results(monitor_id \<mapsto> up)) s')"

definition run_all_checks ::
  "(nat \<Rightarrow> env) \<Rightarrow> store \<Rightarrow> (py_error + (string \<rightharpoonup> bool)) \<times> store" where
  "run_all_checks envs s =
     run_all_loop envs 0
       (map mon_id (filter (\<lambda>m. mon_status m \<noteq> ''paused'') (monitors s))) Map.empty s"

subsection \<open>Metrics\<close>

text \<open>
  \<^verbatim>\<open>datetime.now() - timedelta(...)\<close>, the length of the window given in microseconds.
  A \<^verbatim>\<open>timedelta\<close> holds at most 999999999 days in either direction and a
  \<^verbatim>\<open>datetime\<close> lies between year 1 and year 9999; outside, Python raises
  \<^verbatim>\<open>OverflowError\<close>.
\<close>

definition datetime_max :: datetime where
  "datetime_max = 3652059 * 86400000000 - 1"

definition datetime_minus :: "datetime \<Rightarrow> int \<Rightarrow> py_error + datetime" where
  "datetime_minus t us =
     (if us div 86400000000 < - 999999999 \<or> 999999999 < us div 86400000000
      then Inl OverflowError
      else if t - us < 0 \<or> datetime_max < t - us then Inl OverflowError
      else Inr (t - us))"

text \<open>
  SQL aggregates skip \<^verbatim>\<open>NULL\<close> and are \<^verbatim>\<open>NULL\<close> when nothing is left. (The 64-bit
  range of SQLite's integer \<^verbatim>\<open>SUM\<close> is not modelled.)
\<close>

definition sql_sum :: "int option list \<Rightarrow> int option" where
  "sql_sum vs = (case List.map_filter id vs of [] \<Rightarrow> None | n # ns \<Rightarrow> Some (sum_list (n # ns)))"

definition sql_avg :: "real option list \<Rightarrow> real option" where
  "sql_avg vs =
     (case List.map_filter id vs of
        [] \<Rightarrow> None
      | x # xs \<Rightarrow> Some (sum_list (x # xs) / real (length (x # xs))))"

text \<open>\<open>t\<close> is the reading of the clock inside the call.\<close>

definition get_uptime_percent :: "datetime \<Rightarrow> store \<Rightarrow> string \<Rightarrow> int \<Rightarrow> py_error + real" where
  "get_uptime_percent t s monitor_id days =
     (case datetime_minus t (days * 86400000000) of
        Inl err \<Rightarrow> Inl err
      | Inr cutoff \<Rightarrow>
          (let downtime =
                 (case sql_sum (map inc_duration_s
                         (filter (\<lambda>i. inc_monitor_id i = monitor_id \<and> cutoff < inc_started_at i)
                            (incidents s))) of
                    None \<Rightarrow> 0
                  | Some d \<Rightarrow> d);
               total_seconds = days * 86400
           in if total_seconds = 0 then Inl ZeroDivisionError
              else Inr (max 0 ((1 - real_of_int downtime / real_of_int total_seconds) * 100))))"

definition get_response_time_avg :: "datetime \<Rightarrow> store \<Rightarrow> string \<Rightarrow> int \<Rightarrow> py_error + real" where
  "get_response_time_avg t s monitor_id hours =
     (case datetime_minus t (hours * 3600000000) of
        Inl err \<Rightarrow> Inl err
      | Inr cutoff \<Rightarrow>
          Inr (case sql_avg (map hb_response_time_ms
                      (filter (\<lambda>h. hb_monitor_id h = monitor_id \<and> cutoff < hb_timestamp h \<and>
                                   hb_response_time_ms h \<noteq> None)
                         (heartbeats s))) of
                 None \<Rightarrow> 0
               | Some avg \<Rightarrow> avg))"

subsection \<open>\<^verbatim>\<open>resolve_incident\<close>\<close>

text \<open>
  \<^verbatim>\<open>int((now - started).total_seconds())\<close>: the whole seconds of a difference given in
  microseconds, rounded towards zero as Python's \<^verbatim>\<open>int\<close> does.
\<close>

definition whole_seconds :: "int \<Rightarrow> int" where
  "whole_seconds us = (if 0 \<le> us then us div 1000000 else - ((- us) div 1000000))"

definition resolve_incident :: "datetime \<Rightarrow> store \<Rightarrow> string \<Rightarrow> bool \<times> store" where
  "resolve_incident t s incident_id =
     (case find (\<lambda>i. inc_id i = incident_id) (incidents s) of
        None \<Rightarrow> (False, s)
      | Some row \<Rightarrow>
          (let started = inc_started_at row;
               duration = whole_seconds (t - started)
           in (True,
               s\<lparr>incidents :=
                   map (\<lambda>r. if inc_id r = incident_id
                             then r\<lparr>inc_resolved_at := Some t, inc_duration_s := Some duration\<rparr>
                             else r) (incidents s)\<rparr>)))"

subsection \<open>\<^verbatim>\<open>add_monitor\<close>\<close>

text \<open>
  The new row takes the defaults of the table for the columns the \<^verbatim>\<open>INSERT\<close> does not
  name: \<^verbatim>\<open>retries\<close> 0, \<^verbatim>\<open>status\<close> \<^verbatim>\<open>'unknown'\<close>, the rest \<^verbatim>\<open>NULL\<close>. The id is
  \<^verbatim>\<open>str(uuid.uuid4())[:8]\<close> and the primary key of the table.
\<close>

definition add_monitor ::
  "env \<Rightarrow> store \<Rightarrow> string \<Rightarrow> string \<Rightarrow> string \<Rightarrow> int \<Rightarrow> int \<Rightarrow> string list option \<Rightarrow>
   (py_error + string) \<times> store" where
  "add_monitor e s name monitor_type target interval_s timeout_s tags =
     (let monitor_id = uuid e
      in if monitor_id \<in> set (map mon_id (monitors s)) then (Inl IntegrityError, s)
         else (Inr monitor_id,
               s\<lparr>monitors := monitors s @
                   [\<lparr>mon_id = monitor_id, mon_name = name, mon_type = monitor_type,
                     mon_target = target, mon_interval_s = interval_s,
                     mon_timeout_s = timeout_s, mon_retries = 0, mon_status = ''unknown'',
                     mon_up_since = None, mon_last_check = None,
                     mon_response_time_ms = None, mon_cert_expiry_days = None,
                     mon_tags = (case tags of None \<Rightarrow> [] | Some ts \<Rightarrow> ts),
                     mon_created_at = Some (now e)\<rparr>]\<rparr>))"

subsection \<open>Replaying a sequence of checks\<close>


text \<open>
  \<^verbatim>\<open>get_incidents\<close> builds its query from its arguments: the filter on the monitor is
  there when \<^verbatim>\<open>monitor_id\<close> is truthy (neither \<^verbatim>\<open>None\<close> nor the empty string), the
  filter \<^verbatim>\<open>resolved_at IS NULL\<close> when \<^verbatim>\<open>open_only\<close> is set.
\<close>

definition get_incidents :: "store \<Rightarrow> string option \<Rightarrow> bool \<Rightarrow> incident list" where
  "get_incidents s monitor_id open_only =
     filter (\<lambda>i. (case monitor_id of
                     None \<Rightarrow> True
                   | Some m \<Rightarrow> (if m = [] then True else inc_monitor_id i = m)) \<and>
                  (if open_only then inc_resolved_at i = None else True))
       (incidents s)"

text \<open>
  The incidents of a monitor with \<^verbatim>\<open>resolved_at IS NULL\<close>: what
  \<^verbatim>\<open>get_incidents(monitor_id, open_only=True)\<close> returns for a monitor id that is not
  empty.
\<close>

definition open_incidents :: "store \<Rightarrow> string \<Rightarrow> incident list" where
  "open_incidents s monitor_id =
     filter (\<lambda>i. inc_monitor_id i = monitor_id \<and> inc_resolved_at i = None) (incidents s)"


subsection \<open>The invariant of \<^verbatim>\<open>up_since\<close>\<close>

text \<open>Every row of \<^verbatim>\<open>monitors\<close> has \<^verbatim>\<open>up_since\<close> set exactly when its status is \<^verbatim>\<open>up\<close>.\<close>

definition up_since_inv :: "store \<Rightarrow> bool" where
  "up_since_inv s =
     list_all (\<lambda>m. (mon_up_since m \<noteq> None) = (mon_status m = ''up'')) (monitors s)"

subsection \<open>The invariant of incident durations\<close>

text \<open>
  An incident has a duration exactly when it is resolved: \<^verbatim>\<open>run_check\<close> inserts both
  columns as \<^verbatim>\<open>NULL\<close> and \<^verbatim>\<open>resolve_incident\<close> sets both.
\<close>

definition durations_inv :: "store \<Rightarrow> bool" where
  "durations_inv s =
     list_all (\<lambda>i. (inc_resolved_at i = None) = (inc_duration_s i = None)) (incidents s)"

subsection \<open>The metrics in the words of the specification\<close>

text \<open>
  These follow the specification, not the code. The downtime of a window is the sum of the
  durations of the resolved incidents of the monitor that started after the cutoff; the
  uptime percentage is \<^verbatim>\<open>max(0, (1 - downtime / (D * 86400)) * 100)\<close>.
\<close>

definition spec_downtime :: "store \<Rightarrow> string \<Rightarrow> datetime \<Rightarrow> int" where
  "spec_downtime s monitor_id cutoff =
     sum_list (map (\<lambda>i. case inc_duration_s i of None \<Rightarrow> 0 | Some d \<Rightarrow> d)
       (filter (\<lambda>i. inc_monitor_id i = monitor_id \<and> cutoff < inc_started_at i \<and>
                     inc_resolved_at i \<noteq> None) (incidents s)))"

definition spec_uptime_percent :: "store \<Rightarrow> string \<Rightarrow> datetime \<Rightarrow> int \<Rightarrow> real" where
  "spec_uptime_percent s monitor_id cutoff days =
     max 0 ((1 - real_of_int (spec_downtime s monitor_id cutoff) / real_of_int (days * 86400))
            * 100)"

text \<open>
  The response times that are not null, of the heartbeats of the monitor after the
  cutoff, and the arithmetic mean of a list, 0 for the empty list.
\<close>

definition spec_response_times :: "store \<Rightarrow> string \<Rightarrow> datetime \<Rightarrow> real list" where
  "spec_response_times s monitor_id cutoff =
     List.map_filter hb_response_time_ms
       (filter (\<lambda>h. hb_monitor_id h = monitor_id \<and> cutoff < hb_timestamp h) (heartbeats s))"

definition spec_mean :: "real list \<Rightarrow> real" where
  "spec_mean xs = (if xs = [] then 0 else sum_list xs / real (length xs))"

subsection \<open>Example data\<close>

definition mk_monitor :: "string \<Rightarrow> string \<Rightarrow> string \<Rightarrow> datetime option \<Rightarrow> monitor" where
  "mk_monitor i ty st us =
     \<lparr>mon_id = i, mon_name = i, mon_type = ty, mon_target = ''example.org'',
      mon_interval_s = 60, mon_timeout_s = 10, mon_retries = 0, mon_status = st,
      mon_up_since = us, mon_last_check = None, mon_response_time_ms = None,
      mon_cert_expiry_days = None, mon_tags = [], mon_created_at = Some 0\<rparr>"

definition world_down :: world where
  "world_down =
     \<lparr>http_get = (\<lambda>target timeout. HttpRaises ''timeout''),
      get_cert_expiry = (\<lambda>url. CertRaises ''handshake failed''),
      tcp_connect = (\<lambda>target timeout. TcpRaises ''refused''),
      ping = (\<lambda>target. PingExit 1 NoMatch)\<rparr>"

definition world_up :: world where
  "world_up =
     \<lparr>http_get = (\<lambda>target timeout. HttpResponse 200 50),
      get_cert_expiry = (\<lambda>url. CertDays 30),
      tcp_connect = (\<lambda>target timeout. TcpConnected 5),
      ping = (\<lambda>target. PingExit 0 (TimeMs 12))\<rparr>"

definition env_at :: "datetime \<Rightarrow> string \<Rightarrow> world \<Rightarrow> env" where
  "env_at t u w = \<lparr>now = t, uuid = u, net = w\<rparr>"

definition store1 :: store where
  "store1 =
     \<lparr>monitors = [mk_monitor ''m1'' ''http'' ''unknown'' None], heartbeats = [],
      incidents = []\<rparr>"

definition store_of :: "monitor \<Rightarrow> store" where
  "store_of m = \<lparr>monitors = [m], heartbeats = [], incidents = []\<rparr>"

definition store_up :: store where
  "store_up = store_of (mk_monitor ''m1'' ''http'' ''up'' (Some 1))"

definition world_no_ping :: world where
  "world_no_ping = world_up\<lparr>ping := (\<lambda>target. PingExit 1 NoMatch)\<rparr>"


definition outage1 :: env where
  "outage1 = env_at 10 ''aaaaaaaa'' world_down"

definition outage2 :: env where
  "outage2 = env_at 20 ''bbbbbbbb'' world_down"

definition first_up :: env where
  "first_up = env_at 5 ''aaaaaaaa'' world_up"

definition mk_incident :: "string \<Rightarrow> string \<Rightarrow> datetime \<Rightarrow> datetime option \<Rightarrow> int option \<Rightarrow> incident" where
  "mk_incident i m t r d =
     \<lparr>inc_id = i, inc_monitor_id = m, inc_started_at = t, inc_resolved_at = r,
      inc_duration_s = d, inc_cause = ''timeout'', inc_notified = False\<rparr>"




definition checked :: "(py_error + (string \<rightharpoonup> bool)) \<times> store \<Rightarrow> string \<Rightarrow> bool option" where
  "checked r monitor_id = (case fst r of Inl err \<Rightarrow> None | Inr results \<Rightarrow> results monitor_id)"

definition every_time :: "env \<Rightarrow> nat \<Rightarrow> env" where
  "every_time e k = e"

definition store_maintenance :: store where
  "store_maintenance =
     \<lparr>monitors = [mk_monitor ''m1'' ''http'' ''maintenance'' None,
                  mk_monitor ''m2'' ''http'' ''paused'' None],
      heartbeats = [], incidents = []\<rparr>"

definition store_history :: store where
  "store_history =
     \<lparr>monitors = [mk_monitor ''m1'' ''http'' ''down'' None],
      heartbeats =
        [\<lparr>hb_id = 1, hb_monitor_id = ''m1'', hb_timestamp = 100 * 86400000000,
          hb_status = ''up'', hb_response_time_ms = Some 50\<rparr>,
         \<lparr>hb_id = 2, hb_monitor_id = ''m1'', hb_timestamp = 100 * 86400000000 + 1,
          hb_status = ''down'', hb_response_time_ms = None\<rparr>,
         \<lparr>hb_id = 3, hb_monitor_id = ''m1'', hb_timestamp = 100 * 86400000000 + 2,
          hb_status = ''up'', hb_response_time_ms = Some 40\<rparr>],
      incidents =
        [mk_incident ''aaaaaaaa'' ''m1'' (99 * 86400000000) (Some (99 * 86400000000 + 43200000000))
           (Some 43200),
         mk_incident ''bbbbbbbb'' ''m1'' (100 * 86400000000) None None]\<rparr>"

section \<open>Properties\<close>

subsection \<open>Lookups\<close>

lemma fetch_monitor_None:
  "monitor_id \<notin> set (map mon_id (monitors s)) \<Longrightarrow> fetch_monitor s monitor_id = None"
  by (auto simp: fetch_monitor_def find_None_iff)

lemmas example_defs = store_of_def mk_monitor_def env_at_def world_up_def world_down_def
  world_no_ping_def

lemmas code_defs = run_check_def fetch_monitor_def dispatch_def check_http_def check_tcp_def
  check_ping_def check_cert_def update_monitor_def insert_heartbeat_def new_incident_def
  with_reason_def status_only_def startswith_def Let_def

subsection \<open>What one \<^verbatim>\<open>run_check\<close> does to a monitor that is found\<close>

lemma run_check_found:
  assumes "fetch_monitor s monitor_id = Some row"
  shows "run_check e s monitor_id =
     (let res = dispatch (net e) s monitor_id (mon_type row);
          new_status = res_status res
      in if mon_status row = ''up'' \<and> new_status = ''down'' \<and>
            uuid e \<in> set (map inc_id (incidents s))
         then (Inl IntegrityError, s)
         else (Inr (new_status = ''up''),
               \<lparr>monitors = update_monitor monitor_id new_status (now e)
                   (res_response_time_ms res) (res_cert_expiry_days res)
                   (if new_status = ''up''
                    then (case mon_up_since row of Some t \<Rightarrow> Some t | None \<Rightarrow> Some (now e))
                    else None) (monitors s),
                heartbeats = insert_heartbeat monitor_id (now e) new_status
                   (res_response_time_ms res) (heartbeats s),
                incidents = incidents s @
                   (if mon_status row = ''up'' \<and> new_status = ''down''
                    then [new_incident (uuid e) monitor_id (now e) res] else [])\<rparr>))"
  using assms by (simp add: run_check_def Let_def)

lemma run_check_raises:
  assumes "run_check e s monitor_id = (Inl err, s')"
  shows "s' = s \<and> err = IntegrityError \<and> uuid e \<in> set (map inc_id (incidents s))"
proof (cases "fetch_monitor s monitor_id")
  case None
  with assms show ?thesis by (simp add: run_check_def)
next
  case (Some row)
  from assms show ?thesis
    unfolding run_check_found [OF Some] Let_def by (simp split: if_splits)
qed

lemma run_check_incidents:
  assumes "fetch_monitor s monitor_id = Some row"
    and "run_check e s monitor_id = (Inr up, s')"
  shows "incidents s' = incidents s @
           (if mon_status row = ''up'' \<and>
               res_status (dispatch (net e) s monitor_id (mon_type row)) = ''down''
            then [new_incident (uuid e) monitor_id (now e)
                    (dispatch (net e) s monitor_id (mon_type row))]
            else [])"
  using assms(2) unfolding run_check_found [OF assms(1)] Let_def
  by (auto split: if_splits)

lemma run_check_heartbeats:
  assumes "fetch_monitor s monitor_id = Some row"
    and "run_check e s monitor_id = (Inr up, s')"
  shows "heartbeats s' =
           insert_heartbeat monitor_id (now e)
             (res_status (dispatch (net e) s monitor_id (mon_type row)))
             (res_response_time_ms (dispatch (net e) s monitor_id (mon_type row)))
             (heartbeats s)"
  using assms(2) unfolding run_check_found [OF assms(1)] Let_def
  by (auto split: if_splits)

lemma run_check_value:
  assumes "fetch_monitor s monitor_id = Some row"
    and "run_check e s monitor_id = (Inr up, s')"
  shows "up = (res_status (dispatch (net e) s monitor_id (mon_type row)) = ''up'')"
  using assms(2) unfolding run_check_found [OF assms(1)] Let_def
  by (auto split: if_splits)

lemma find_update_monitor:
  assumes "find (\<lambda>m. mon_id m = monitor_id) rows = Some row"
  shows "find (\<lambda>m. mon_id m = monitor_id)
           (update_monitor monitor_id st t rt ce us rows) =
         Some (row\<lparr>mon_status := st, mon_last_check := Some t, mon_response_time_ms := rt,
                    mon_cert_expiry_days := ce, mon_up_since := us\<rparr>)"
  using assms by (induction rows) (auto simp: update_monitor_def split: if_splits)

lemma run_check_monitor:
  assumes "fetch_monitor s monitor_id = Some row"
    and "run_check e s monitor_id = (Inr up, s')"
  shows "fetch_monitor s' monitor_id =
           Some (row\<lparr>mon_status := res_status (dispatch (net e) s monitor_id (mon_type row)),
                  mon_last_check := Some (now e),
                  mon_response_time_ms :=
                    res_response_time_ms (dispatch (net e) s monitor_id (mon_type row)),
                  mon_cert_expiry_days :=
                    res_cert_expiry_days (dispatch (net e) s monitor_id (mon_type row)),
                  mon_up_since :=
                    (if res_status (dispatch (net e) s monitor_id (mon_type row)) = ''up''
                     then (case mon_up_since row of Some t \<Rightarrow> Some t | None \<Rightarrow> Some (now e))
                     else None)\<rparr>)"
proof -
  from assms(1) have f: "find (\<lambda>m. mon_id m = monitor_id) (monitors s) = Some row"
    by (simp add: fetch_monitor_def)
  from assms(2) show ?thesis
    unfolding run_check_found [OF assms(1)] Let_def
    by (auto simp: fetch_monitor_def find_update_monitor [OF f] split: if_splits)
qed




lemma open_incidents_get_incidents:
  "monitor_id \<noteq> [] \<Longrightarrow> get_incidents s (Some monitor_id) True = open_incidents s monitor_id"
  by (simp add: get_incidents_def open_incidents_def)


lemma update_monitor_up_since_inv:
  assumes "list_all (\<lambda>m. (mon_up_since m \<noteq> None) = (mon_status m = ''up'')) rows"
    and "(us \<noteq> None) = (st = ''up'')"
  shows "list_all (\<lambda>m. (mon_up_since m \<noteq> None) = (mon_status m = ''up''))
           (update_monitor monitor_id st t rt ce us rows)"
  using assms by (induction rows) (auto simp: update_monitor_def)

lemma run_check_up_since_inv:
  assumes "up_since_inv s"
  shows "up_since_inv (snd (run_check e s monitor_id))"
proof (cases "fetch_monitor s monitor_id")
  case None
  then show ?thesis using assms by (simp add: run_check_def)
next
  case (Some row)
  let ?st = "res_status (dispatch (net e) s monitor_id (mon_type row))"
  let ?us = "if ?st = ''up''
             then (case mon_up_since row of Some t \<Rightarrow> Some t | None \<Rightarrow> Some (now e))
             else None"
  have "(?us \<noteq> None) = (?st = ''up'')"
    by (simp split: option.splits)
  from update_monitor_up_since_inv [OF assms [unfolded up_since_inv_def] this]
  show ?thesis
    using assms unfolding run_check_found [OF Some] Let_def
    by (simp add: up_since_inv_def)
qed

subsection \<open>The invariants are kept\<close>

lemma add_monitor_up_since_inv:
  assumes "up_since_inv s"
  shows "up_since_inv (snd (add_monitor e s name monitor_type target interval_s timeout_s tags))"
  using assms by (simp add: add_monitor_def up_since_inv_def Let_def)

lemma run_check_durations_inv:
  assumes "durations_inv s"
  shows "durations_inv (snd (run_check e s monitor_id))"
proof (cases "fetch_monitor s monitor_id")
  case None
  then show ?thesis using assms by (simp add: run_check_def)
next
  case (Some row)
  show ?thesis
    using assms unfolding run_check_found [OF Some] Let_def
    by (simp add: durations_inv_def new_incident_def)
qed

subsection \<open>What \<^verbatim>\<open>resolve_incident\<close> does to a row that is found\<close>





lemma resolve_incident_found:
  assumes "find (\<lambda>i. inc_id i = incident_id) (incidents s) = Some row"
  shows "resolve_incident t s incident_id =
           (True,
            s\<lparr>incidents :=
                map (\<lambda>r. if inc_id r = incident_id
                          then r\<lparr>inc_resolved_at := Some t,
                                 inc_duration_s := Some (whole_seconds (t - inc_started_at row))\<rparr>
                          else r) (incidents s)\<rparr>)"
  using assms by (simp add: resolve_incident_def Let_def)


lemma resolve_incident_durations_inv:
  assumes "durations_inv s"
  shows "durations_inv (snd (resolve_incident t s incident_id))"
proof (cases "find (\<lambda>i. inc_id i = incident_id) (incidents s)")
  case None
  then show ?thesis using assms by (simp add: resolve_incident_def)
next
  case (Some row)
  have "list_all (\<lambda>i. (inc_resolved_at i = None) = (inc_duration_s i = None)) rows \<Longrightarrow>
        list_all (\<lambda>i. (inc_resolved_at i = None) = (inc_duration_s i = None))
          (map (\<lambda>r. if inc_id r = incident_id
                     then r\<lparr>inc_resolved_at := Some t, inc_duration_s := Some d\<rparr>
                     else r) rows)" for rows d
    by (induction rows) auto
  then show ?thesis
    using assms unfolding resolve_incident_found [OF Some]
    by (simp add: durations_inv_def)
qed


subsection \<open>The loop of \<^verbatim>\<open>run_all_checks\<close>\<close>

lemma update_monitor_ids:
  "map mon_id (update_monitor monitor_id st t rt ce us rows) = map mon_id rows"
  by (induction rows) (auto simp: update_monitor_def)

lemma run_check_monitor_ids:
  "map mon_id (monitors (snd (run_check e s monitor_id))) = map mon_id (monitors s)"
proof (cases "fetch_monitor s monitor_id")
  case None
  then show ?thesis by (simp add: run_check_def)
next
  case (Some row)
  show ?thesis unfolding run_check_found [OF Some] Let_def
    by (simp add: update_monitor_ids)
qed

lemma fetch_monitor_present:
  assumes "monitor_id \<in> set (map mon_id (monitors s))"
  shows "\<exists>row. fetch_monitor s monitor_id = Some row"
proof (cases "fetch_monitor s monitor_id")
  case None
  then show ?thesis using assms by (auto simp: fetch_monitor_def find_None_iff)
next
  case (Some row)
  then show ?thesis by blast
qed

lemma run_all_loop_ok:
  assumes "run_all_loop envs k ids results s = (Inr results', s')"
    and "set ids \<subseteq> set (map mon_id (monitors s))"
  shows "dom results' = dom results \<union> set ids \<and>
         map hb_monitor_id (heartbeats s') = map hb_monitor_id (heartbeats s) @ ids"
  using assms
proof (induction ids arbitrary: k results s)
  case Nil
  then show ?case by simp
next
  case (Cons monitor_id rest)
  from Cons.prems(1) obtain up s1 where
    step: "run_check (envs k) s monitor_id = (Inr up, s1)" and
    rest: "run_all_loop envs (Suc k) rest (results(monitor_id \<mapsto> up)) s1 = (Inr results', s')"
    by (auto split: prod.splits sum.splits)
  from Cons.prems(2) obtain row where f: "fetch_monitor s monitor_id = Some row"
    using fetch_monitor_present [of monitor_id s] by auto
  have ids: "map mon_id (monitors s1) = map mon_id (monitors s)"
    using run_check_monitor_ids [of "envs k" s monitor_id] step by simp
  have hb: "map hb_monitor_id (heartbeats s1) = map hb_monitor_id (heartbeats s) @ [monitor_id]"
    using run_check_heartbeats [OF f step] by (simp add: insert_heartbeat_def)
  have sub: "set rest \<subseteq> set (map mon_id (monitors s1))"
    using Cons.prems(2) ids by simp
  from Cons.IH [OF rest sub] hb show ?case by auto
qed

subsection \<open>SQL aggregates\<close>

lemma sql_sum_or_0:
  "(case sql_sum vs of None \<Rightarrow> 0 | Some d \<Rightarrow> d) =
   sum_list (map (\<lambda>v. case v of None \<Rightarrow> 0 | Some d \<Rightarrow> d) vs)"
proof -
  have h: "sum_list (List.map_filter id vs) =
        sum_list (map (\<lambda>v. case v of None \<Rightarrow> 0 | Some d \<Rightarrow> d) vs)"
    by (induction vs) (auto simp: split: option.splits)
  show ?thesis
  proof (cases "List.map_filter id vs")
    case Nil
    then have "sql_sum vs = None" by (simp add: sql_sum_def)
    then show ?thesis using h Nil by simp
  next
    case (Cons n ns)
    then have "sql_sum vs = Some (sum_list (List.map_filter id vs))" by (simp add: sql_sum_def)
    then show ?thesis using h by simp
  qed
qed

lemma sum_resolved_only:
  assumes "list_all (\<lambda>i. (inc_resolved_at i = None) = (inc_duration_s i = None)) rows"
  shows "sum_list (map (\<lambda>i. case inc_duration_s i of None \<Rightarrow> 0 | Some d \<Rightarrow> d)
           (filter (\<lambda>i. P i) rows)) =
         sum_list (map (\<lambda>i. case inc_duration_s i of None \<Rightarrow> (0::int) | Some d \<Rightarrow> d)
           (filter (\<lambda>i. P i \<and> inc_resolved_at i \<noteq> None) rows))"
  using assms by (induction rows) auto

lemma downtime_is_spec_downtime:
  assumes "durations_inv s"
  shows "(case sql_sum (map inc_duration_s
             (filter (\<lambda>i. inc_monitor_id i = monitor_id \<and> cutoff < inc_started_at i)
                (incidents s))) of None \<Rightarrow> 0 | Some d \<Rightarrow> d) =
         spec_downtime s monitor_id cutoff"
proof -
  have "sum_list (map (\<lambda>i. case inc_duration_s i of None \<Rightarrow> 0 | Some d \<Rightarrow> d)
           (filter (\<lambda>i. inc_monitor_id i = monitor_id \<and> cutoff < inc_started_at i)
              (incidents s))) = spec_downtime s monitor_id cutoff"
    unfolding spec_downtime_def
    using sum_resolved_only [OF assms [unfolded durations_inv_def],
        of "\<lambda>i. inc_monitor_id i = monitor_id \<and> cutoff < inc_started_at i"]
    by (simp add: conj_assoc)
  then show ?thesis by (simp add: sql_sum_or_0 comp_def)
qed

lemma datetime_minus_Inr:
  "datetime_minus t us = Inr cutoff \<Longrightarrow> cutoff = t - us"
  by (simp add: datetime_minus_def Let_def split: if_splits)

lemma sql_avg_not_null:
  "(case sql_avg (map f (filter (\<lambda>h. P h \<and> f h \<noteq> None) rows)) of
      None \<Rightarrow> 0 | Some avg \<Rightarrow> avg) =
   spec_mean (List.map_filter f (filter P rows))"
proof -
  have "List.map_filter id (map f (filter (\<lambda>h. P h \<and> f h \<noteq> None) rows)) =
        List.map_filter f (filter P rows)"
    by (induction rows) (auto split: option.splits)
  then show ?thesis
    by (simp add: sql_avg_def spec_mean_def split: list.splits)
qed

lemma get_uptime_percent_zero_days:
  assumes "datetime_minus t 0 = Inr cutoff"
  shows "get_uptime_percent t s monitor_id 0 = Inl ZeroDivisionError"
  using assms by (simp add: get_uptime_percent_def Let_def)

subsection \<open>A monitor id that is not in the store\<close>

text \<open>
  Claim C9 says that each check operation, \<^verbatim>\<open>run_check\<close> among them, gives the caller
  an explicit not-found result for a monitor id that is not in the store. \<^verbatim>\<open>run_check\<close>
  returns a \<^verbatim>\<open>bool\<close>: for the absent id below it returns \<^verbatim>\<open>False\<close>, and it returns the
  same \<^verbatim>\<open>False\<close> for the monitor that is in the store and has just gone down, so its
  value does not tell the caller that the monitor was not found.
\<close>

theorem run_check_not_found_is_plain_false_counterexample:
  "''zz'' \<notin> set (map mon_id (monitors store_up)) \<and>
   fst (run_check outage1 store_up ''zz'') = Inr False \<and>
   ''m1'' \<in> set (map mon_id (monitors store_up)) \<and>
   res_status (dispatch (net outage1) store_up ''m1'' ''http'') = ''down'' \<and>
   fst (run_check outage1 store_up ''m1'') = Inr False"
  by (simp add: outage1_def store_up_def example_defs code_defs)

text \<open>
  Claim C9, as amended. For a monitor id that is not in the table \<^verbatim>\<open>monitors\<close>, each of
  \<^verbatim>\<open>check_http\<close>, \<^verbatim>\<open>check_tcp\<close>, \<^verbatim>\<open>check_ping\<close> and \<^verbatim>\<open>check_cert\<close> returns the
  dictionary \<^verbatim>\<open>{"status": "error", "reason": "monitor not found"}\<close>, and
  \<^verbatim>\<open>run_check\<close> returns the plain \<^verbatim>\<open>False\<close> that it also returns for a monitor that
  is not up; none raises, and the store is as it was (the probes only read it).
\<close>

theorem missing_monitor_not_found:
  assumes "monitor_id \<notin> set (map mon_id (monitors s))"
  shows "check_http w s monitor_id = monitor_not_found \<and>
         check_tcp w s monitor_id = monitor_not_found \<and>
         check_ping w s monitor_id = monitor_not_found \<and>
         check_cert w s monitor_id = monitor_not_found \<and>
         res_status monitor_not_found = ''error'' \<and>
         res_reason monitor_not_found = Some ''monitor not found'' \<and>
         run_check e s monitor_id = (Inr False, s)"
  using fetch_monitor_None [OF assms]
  by (simp add: check_http_def check_tcp_def check_ping_def check_cert_def run_check_def
      monitor_not_found_def with_reason_def status_only_def)

theorem missing_monitor_not_found_witness:
  "check_http world_up store1 ''zz'' = monitor_not_found \<and>
   check_tcp world_up store1 ''zz'' = monitor_not_found \<and>
   check_ping world_up store1 ''zz'' = monitor_not_found \<and>
   check_cert world_up store1 ''zz'' = monitor_not_found \<and>
   run_check (env_at 7 ''ab12cd34'' world_up) store1 ''zz'' = (Inr False, store1)"
  using missing_monitor_not_found [of "''zz''" store1 world_up "env_at 7 ''ab12cd34'' world_up"]
  by (simp add: store1_def mk_monitor_def)

subsection \<open>Open incidents over a replayed sequence\<close>




subsection \<open>A sustained outage opens one incident\<close>

text \<open>
  Claim C3. For two successive checks of a monitor: the first opens an incident exactly
  when the stored status was \<^verbatim>\<open>up\<close> and the check is classified \<^verbatim>\<open>down\<close>; the second
  opens one exactly when the first was classified \<^verbatim>\<open>up\<close> (the status then stored) and
  the second \<^verbatim>\<open>down\<close>. So a monitor that is up and then gets \<^verbatim>\<open>down\<close> twice has
  exactly one new incident, the one of the first check.
\<close>

theorem sustained_outage_one_incident:
  assumes found: "fetch_monitor s monitor_id = Some row"
    and first: "run_check e1 s monitor_id = (Inr up1, s1)"
    and second: "run_check e2 s1 monitor_id = (Inr up2, s2)"
  shows "incidents s1 = incidents s @
           (if mon_status row = ''up'' \<and>
               res_status (dispatch (net e1) s monitor_id (mon_type row)) = ''down''
            then [new_incident (uuid e1) monitor_id (now e1)
                    (dispatch (net e1) s monitor_id (mon_type row))]
            else []) \<and>
         incidents s2 = incidents s1 @
           (if res_status (dispatch (net e1) s monitor_id (mon_type row)) = ''up'' \<and>
               res_status (dispatch (net e2) s1 monitor_id (mon_type row)) = ''down''
            then [new_incident (uuid e2) monitor_id (now e2)
                    (dispatch (net e2) s1 monitor_id (mon_type row))]
            else []) \<and>
         (mon_status row = ''up'' \<and>
          res_status (dispatch (net e1) s monitor_id (mon_type row)) = ''down'' \<and>
          res_status (dispatch (net e2) s1 monitor_id (mon_type row)) = ''down'' \<longrightarrow>
          incidents s2 = incidents s @
            [new_incident (uuid e1) monitor_id (now e1)
               (dispatch (net e1) s monitor_id (mon_type row))])"
proof -
  let ?r1 = "dispatch (net e1) s monitor_id (mon_type row)"
  obtain row1 where f1: "fetch_monitor s1 monitor_id = Some row1"
    and st1: "mon_status row1 = res_status ?r1" and ty1: "mon_type row1 = mon_type row"
    using run_check_monitor [OF found first] by simp
  have a: "incidents s1 = incidents s @
           (if mon_status row = ''up'' \<and> res_status ?r1 = ''down''
            then [new_incident (uuid e1) monitor_id (now e1) ?r1] else [])"
    using run_check_incidents [OF found first] .
  have b: "incidents s2 = incidents s1 @
           (if res_status ?r1 = ''up'' \<and>
               res_status (dispatch (net e2) s1 monitor_id (mon_type row)) = ''down''
            then [new_incident (uuid e2) monitor_id (now e2)
                    (dispatch (net e2) s1 monitor_id (mon_type row))]
            else [])"
    using run_check_incidents [OF f1 second] by (simp add: st1 ty1)
  from a b show ?thesis by simp
qed

theorem sustained_outage_one_incident_witness:
  "fetch_monitor store_up ''m1'' = Some (mk_monitor ''m1'' ''http'' ''up'' (Some 1)) \<and>
   fst (run_check outage1 store_up ''m1'') = Inr False \<and>
   fst (run_check outage2 (snd (run_check outage1 store_up ''m1'')) ''m1'') = Inr False \<and>
   map inc_id (incidents (snd (run_check outage2 (snd (run_check outage1 store_up ''m1'')) ''m1'')))
     = [''aaaaaaaa'']"
proof -
  define s1 where "s1 = snd (run_check outage1 store_up ''m1'')"
  define s2 where "s2 = snd (run_check outage2 s1 ''m1'')"
  have h: "fetch_monitor store_up ''m1'' = Some (mk_monitor ''m1'' ''http'' ''up'' (Some 1))"
    by (simp add: fetch_monitor_def store_up_def store_of_def mk_monitor_def)
  have f1: "fst (run_check outage1 store_up ''m1'') = Inr False"
    by (simp add: outage1_def store_up_def example_defs code_defs)
  have f2: "fst (run_check outage2 s1 ''m1'') = Inr False"
    by (simp add: s1_def outage1_def outage2_def store_up_def example_defs code_defs)
  have r1: "run_check outage1 store_up ''m1'' = (Inr False, s1)"
    using f1 by (simp add: s1_def prod_eq_iff)
  have r2: "run_check outage2 s1 ''m1'' = (Inr False, s2)"
    using f2 by (simp add: s2_def prod_eq_iff)
  have c0: "mon_status (mk_monitor ''m1'' ''http'' ''up'' (Some 1)) = ''up''"
    by (simp add: mk_monitor_def)
  have c1: "res_status (dispatch (net outage1) store_up ''m1''
              (mon_type (mk_monitor ''m1'' ''http'' ''up'' (Some 1)))) = ''down''"
    by (simp add: outage1_def store_up_def example_defs code_defs)
  have c2: "res_status (dispatch (net outage2) s1 ''m1''
              (mon_type (mk_monitor ''m1'' ''http'' ''up'' (Some 1)))) = ''down''"
    by (simp add: s1_def outage1_def outage2_def store_up_def example_defs code_defs)
  from sustained_outage_one_incident [OF h r1 r2] c0 c1 c2
  have "incidents s2 = incidents store_up @
          [new_incident (uuid outage1) ''m1'' (now outage1)
             (dispatch (net outage1) store_up ''m1''
                (mon_type (mk_monitor ''m1'' ''http'' ''up'' (Some 1))))]"
    by simp
  then have "map inc_id (incidents s2) = [''aaaaaaaa'']"
    by (simp add: new_incident_def outage1_def env_at_def store_up_def store_of_def)
  then show ?thesis using h f1 f2 unfolding s2_def s1_def by simp
qed

subsection \<open>\<^verbatim>\<open>up_since\<close> follows the status\<close>

text \<open>
  Claim C4. After a \<^verbatim>\<open>run_check\<close> of a monitor, its \<^verbatim>\<open>up_since\<close> is set if and only
  if its status is \<^verbatim>\<open>up\<close>, and is null for every other status. If the row satisfied
  this before the check, then \<^verbatim>\<open>up_since\<close> is the time of the check when the monitor
  comes up from another status, and is unchanged when it was up already. (The code keeps
  a stored \<^verbatim>\<open>up_since\<close> that is set rather than looking at the previous status; the two
  agree on rows that satisfy the invariant, which \<open>run_check_up_since_inv\<close> shows every
  \<^verbatim>\<open>run_check\<close> to preserve on the whole table.)
\<close>

theorem up_since_tracks_status:
  assumes found: "fetch_monitor s monitor_id = Some row"
    and ok: "run_check e s monitor_id = (Inr up, s')"
  shows "\<exists>row'. fetch_monitor s' monitor_id = Some row' \<and>
           ((mon_up_since row' \<noteq> None) = (mon_status row' = ''up'')) \<and>
           (mon_status row' \<noteq> ''up'' \<longrightarrow> mon_up_since row' = None) \<and>
           (((mon_up_since row \<noteq> None) = (mon_status row = ''up'')) \<longrightarrow>
              (mon_status row' = ''up'' \<and> mon_status row \<noteq> ''up'' \<longrightarrow>
                 mon_up_since row' = Some (now e)) \<and>
              (mon_status row' = ''up'' \<and> mon_status row = ''up'' \<longrightarrow>
                 mon_up_since row' = mon_up_since row))"
  using run_check_monitor [OF found ok] by (auto split: option.splits)

theorem up_since_tracks_status_witness:
  "fetch_monitor store1 ''m1'' = Some (mk_monitor ''m1'' ''http'' ''unknown'' None) \<and>
   fst (run_check first_up store1 ''m1'') = Inr True \<and>
   (\<exists>row'. fetch_monitor (snd (run_check first_up store1 ''m1'')) ''m1'' = Some row' \<and>
      mon_status row' = ''up'' \<and> mon_up_since row' = Some 5)"
proof -
  define s' where "s' = snd (run_check first_up store1 ''m1'')"
  have h: "fetch_monitor store1 ''m1'' = Some (mk_monitor ''m1'' ''http'' ''unknown'' None)"
    by (simp add: fetch_monitor_def store1_def mk_monitor_def)
  have f: "fst (run_check first_up store1 ''m1'') = Inr True"
    by (simp add: first_up_def store1_def example_defs code_defs)
  have r: "run_check first_up store1 ''m1'' = (Inr True, s')"
    using f by (simp add: s'_def prod_eq_iff)
  have st: "map_option mon_status (fetch_monitor s' ''m1'') = Some ''up''"
    by (simp add: s'_def first_up_def store1_def example_defs code_defs)
  have pre: "mon_status (mk_monitor ''m1'' ''http'' ''unknown'' None) = ''unknown'' \<and>
             mon_up_since (mk_monitor ''m1'' ''http'' ''unknown'' None) = None"
    by (simp add: mk_monitor_def)
  have n: "now first_up = 5" by (simp add: first_up_def env_at_def)
  from up_since_tracks_status [OF h r] st pre n
  have "\<exists>row'. fetch_monitor s' ''m1'' = Some row' \<and>
      mon_status row' = ''up'' \<and> mon_up_since row' = Some 5"
    by auto
  then show ?thesis using h f unfolding s'_def by simp
qed

subsection \<open>Dispatch on the monitor type\<close>

text \<open>
  Claim C5 says that each of the types http, tcp, ping, dns and cert gets its own probe,
  and that dns resolves a name rather than being the ping probe. In the code a dns
  monitor runs \<^verbatim>\<open>check_ping\<close> (what it reports is what the ping subprocess reports), and
  a cert monitor has no branch: it is classified \<^verbatim>\<open>unknown\<close> though \<^verbatim>\<open>check_cert\<close>
  would report \<^verbatim>\<open>up\<close>.
\<close>

theorem dns_is_ping_counterexample:
  "dispatch world_up (store_of (mk_monitor ''m1'' ''dns'' ''unknown'' None)) ''m1'' ''dns'' =
     check_ping world_up (store_of (mk_monitor ''m1'' ''dns'' ''unknown'' None)) ''m1'' \<and>
   res_response_time_ms
     (dispatch world_up (store_of (mk_monitor ''m1'' ''dns'' ''unknown'' None)) ''m1'' ''dns'') =
     Some 12 \<and>
   fst (run_check (env_at 5 ''aaaaaaaa'' world_up)
          (store_of (mk_monitor ''m1'' ''dns'' ''unknown'' None)) ''m1'') = Inr True \<and>
   fst (run_check (env_at 5 ''aaaaaaaa'' world_no_ping)
          (store_of (mk_monitor ''m1'' ''dns'' ''unknown'' None)) ''m1'') = Inr False \<and>
   dispatch world_up (store_of (mk_monitor ''m1'' ''cert'' ''unknown'' None)) ''m1'' ''cert'' =
     status_only ''unknown'' \<and>
   res_status (check_cert world_up (store_of (mk_monitor ''m1'' ''cert'' ''unknown'' None)) ''m1'') =
     ''up''"
  by (simp add: example_defs code_defs)

text \<open>
  Claim C5, as amended. The dispatch of \<^verbatim>\<open>run_check\<close> runs \<^verbatim>\<open>check_http\<close> for the type
  http, \<^verbatim>\<open>check_tcp\<close> for tcp, and \<^verbatim>\<open>check_ping\<close> for both ping and dns; every other
  type is classified \<^verbatim>\<open>unknown\<close> without a probe. The value of \<^verbatim>\<open>run_check\<close> and the
  status it stores are those of the dispatched result.
\<close>

theorem dispatch_by_type:
  "dispatch w s monitor_id ''http'' = check_http w s monitor_id \<and>
   dispatch w s monitor_id ''tcp'' = check_tcp w s monitor_id \<and>
   dispatch w s monitor_id ''ping'' = check_ping w s monitor_id \<and>
   dispatch w s monitor_id ''dns'' = check_ping w s monitor_id \<and>
   (ty \<notin> {''http'', ''tcp'', ''ping'', ''dns''} \<longrightarrow>
      dispatch w s monitor_id ty = status_only ''unknown'') \<and>
   (fetch_monitor s monitor_id = Some row \<and> run_check e s monitor_id = (Inr up, s') \<longrightarrow>
      up = (res_status (dispatch (net e) s monitor_id (mon_type row)) = ''up'') \<and>
      map_option mon_status (fetch_monitor s' monitor_id) =
        Some (res_status (dispatch (net e) s monitor_id (mon_type row))))"
proof -
  have a: "dispatch w s monitor_id ''http'' = check_http w s monitor_id"
    by (simp add: dispatch_def)
  have b: "dispatch w s monitor_id ''tcp'' = check_tcp w s monitor_id"
    by (simp add: dispatch_def)
  have c: "dispatch w s monitor_id ''ping'' = check_ping w s monitor_id"
    by (simp add: dispatch_def)
  have d: "dispatch w s monitor_id ''dns'' = check_ping w s monitor_id"
    by (simp add: dispatch_def)
  have e: "ty \<notin> {''http'', ''tcp'', ''ping'', ''dns''} \<longrightarrow>
      dispatch w s monitor_id ty = status_only ''unknown''"
    by (simp add: dispatch_def)
  have f: "fetch_monitor s monitor_id = Some row \<and> run_check e s monitor_id = (Inr up, s') \<longrightarrow>
      up = (res_status (dispatch (net e) s monitor_id (mon_type row)) = ''up'') \<and>
      map_option mon_status (fetch_monitor s' monitor_id) =
        Some (res_status (dispatch (net e) s monitor_id (mon_type row)))"
    using run_check_value [of s monitor_id row e up s']
      run_check_monitor [of s monitor_id row e up s'] by simp
  from a b c d e f show ?thesis by blast
qed

theorem dispatch_by_type_witness:
  "''cert'' \<notin> {''http'', ''tcp'', ''ping'', ''dns''} \<and>
   dispatch world_up store1 ''m1'' ''cert'' = status_only ''unknown'' \<and>
   dispatch world_up store1 ''m1'' ''dns'' = check_ping world_up store1 ''m1'' \<and>
   fetch_monitor store1 ''m1'' = Some (mk_monitor ''m1'' ''http'' ''unknown'' None) \<and>
   fst (run_check (env_at 5 ''aaaaaaaa'' world_up) store1 ''m1'') = Inr True \<and>
   map_option mon_status
     (fetch_monitor (snd (run_check (env_at 5 ''aaaaaaaa'' world_up) store1 ''m1'')) ''m1'') =
     Some ''up''"
proof -
  define s' where "s' = snd (run_check (env_at 5 ''aaaaaaaa'' world_up) store1 ''m1'')"
  have h: "fetch_monitor store1 ''m1'' = Some (mk_monitor ''m1'' ''http'' ''unknown'' None)"
    by (simp add: fetch_monitor_def store1_def mk_monitor_def)
  have f: "fst (run_check (env_at 5 ''aaaaaaaa'' world_up) store1 ''m1'') = Inr True"
    by (simp add: store1_def example_defs code_defs)
  have r: "run_check (env_at 5 ''aaaaaaaa'' world_up) store1 ''m1'' = (Inr True, s')"
    using f by (simp add: s'_def prod_eq_iff)
  have d: "res_status (dispatch (net (env_at 5 ''aaaaaaaa'' world_up)) store1 ''m1''
             (mon_type (mk_monitor ''m1'' ''http'' ''unknown'' None))) = ''up''"
    by (simp add: store1_def example_defs code_defs)
  have c: "''cert'' \<notin> {''http'', ''tcp'', ''ping'', ''dns''}"
    by simp
  from dispatch_by_type [of world_up store1 "''m1''" "''cert''"
        "mk_monitor ''m1'' ''http'' ''unknown'' None" "env_at 5 ''aaaaaaaa'' world_up" True s']
  have "dispatch world_up store1 ''m1'' ''dns'' = check_ping world_up store1 ''m1'' \<and>
        dispatch world_up store1 ''m1'' ''cert'' = status_only ''unknown'' \<and>
        map_option mon_status (fetch_monitor s' ''m1'') = Some ''up''"
    using h r d c by simp
  then show ?thesis using h f c unfolding s'_def by simp
qed

subsection \<open>A recovery does not close the incident\<close>




subsection \<open>Which monitors a cycle checks\<close>

text \<open>
  Claim C6 says that \<^verbatim>\<open>run_all_checks\<close> checks a monitor if and only if its status is
  neither \<^verbatim>\<open>paused\<close> nor \<^verbatim>\<open>maintenance\<close>. The query of the code excludes
  \<^verbatim>\<open>paused\<close> only: a monitor in maintenance is checked, gets a heartbeat, and its
  status is overwritten.
\<close>

theorem maintenance_is_checked_counterexample:
  "map mon_status (monitors store_maintenance) = [''maintenance'', ''paused''] \<and>
   checked (run_all_checks (every_time first_up) store_maintenance) ''m1'' = Some True \<and>
   checked (run_all_checks (every_time first_up) store_maintenance) ''m2'' = None \<and>
   map hb_monitor_id (heartbeats (snd (run_all_checks (every_time first_up) store_maintenance)))
     = [''m1''] \<and>
   map mon_status (monitors (snd (run_all_checks (every_time first_up) store_maintenance)))
     = [''up'', ''paused'']"
  by (simp add: checked_def run_all_checks_def every_time_def first_up_def store_maintenance_def
      example_defs code_defs)

text \<open>
  Claim C6, as amended. A cycle of \<^verbatim>\<open>run_all_checks\<close> that returns has checked a
  monitor if and only if its status at the start of the cycle was not \<^verbatim>\<open>paused\<close>: the
  keys of the dictionary it returns are the ids of those monitors, and the cycle has
  appended one heartbeat for each of them, in the order of the table, and none for any
  other monitor.
\<close>

theorem run_all_checks_skips_only_paused:
  assumes "run_all_checks envs s = (Inr results, s')"
  shows "dom results =
           set (map mon_id (filter (\<lambda>m. mon_status m \<noteq> ''paused'') (monitors s))) \<and>
         map hb_monitor_id (heartbeats s') =
           map hb_monitor_id (heartbeats s) @
           map mon_id (filter (\<lambda>m. mon_status m \<noteq> ''paused'') (monitors s))"
proof -
  have sub: "set (map mon_id (filter (\<lambda>m. mon_status m \<noteq> ''paused'') (monitors s)))
      \<subseteq> set (map mon_id (monitors s))"
    by auto
  from run_all_loop_ok [OF assms [unfolded run_all_checks_def] sub]
  show ?thesis by simp
qed

theorem run_all_checks_skips_only_paused_witness:
  "checked (run_all_checks (every_time first_up) store_maintenance) ''m1'' = Some True \<and>
   (\<exists>results. fst (run_all_checks (every_time first_up) store_maintenance) = Inr results \<and>
      dom results = {''m1''}) \<and>
   map hb_monitor_id (heartbeats (snd (run_all_checks (every_time first_up) store_maintenance)))
     = [''m1'']"
proof -
  define s' where "s' = snd (run_all_checks (every_time first_up) store_maintenance)"
  have c: "checked (run_all_checks (every_time first_up) store_maintenance) ''m1'' = Some True"
    by (simp add: checked_def run_all_checks_def every_time_def first_up_def
        store_maintenance_def example_defs code_defs)
  then obtain results where
    f: "fst (run_all_checks (every_time first_up) store_maintenance) = Inr results"
    by (auto simp: checked_def split: sum.splits)
  then have r: "run_all_checks (every_time first_up) store_maintenance = (Inr results, s')"
    by (simp add: s'_def prod_eq_iff)
  have sel: "map mon_id (filter (\<lambda>m. mon_status m \<noteq> ''paused'') (monitors store_maintenance))
      = [''m1'']"
    by (simp add: store_maintenance_def mk_monitor_def)
  have hb0: "heartbeats store_maintenance = []"
    by (simp add: store_maintenance_def)
  from run_all_checks_skips_only_paused [OF r]
  have "dom results = {''m1''} \<and> map hb_monitor_id (heartbeats s') = [''m1'']"
    unfolding sel hb0 by simp
  then show ?thesis using c f unfolding s'_def by simp
qed

subsection \<open>Uptime percentage\<close>

text \<open>
  Claim C7. Over a window of \<open>days\<close> days (not zero, and not reaching outside the range
  of \<^verbatim>\<open>datetime\<close>), in a store where an incident has a duration exactly when it is
  resolved, \<^verbatim>\<open>get_uptime_percent\<close> returns
  \<^verbatim>\<open>max(0, (1 - downtime / (days * 86400)) * 100)\<close>, where the downtime is the sum of
  the durations of the resolved incidents of the monitor that started after the cutoff;
  open incidents add nothing. With no incident of the monitor in the window the result is
  exactly 100. (For \<open>days = 0\<close> the division of the code raises, see
  \<open>get_uptime_percent_zero_days\<close>.)
\<close>

theorem uptime_percent_formula:
  assumes inv: "durations_inv s"
    and window: "datetime_minus t (days * 86400000000) = Inr cutoff"
    and days: "days \<noteq> 0"
  shows "cutoff = t - days * 86400000000 \<and>
         get_uptime_percent t s monitor_id days =
           Inr (spec_uptime_percent s monitor_id cutoff days) \<and>
         (filter (\<lambda>i. inc_monitor_id i = monitor_id \<and> cutoff < inc_started_at i)
            (incidents s) = [] \<longrightarrow>
          get_uptime_percent t s monitor_id days = Inr 100)"
proof -
  have a: "cutoff = t - days * 86400000000"
    using datetime_minus_Inr [OF window] .
  have b: "get_uptime_percent t s monitor_id days =
           Inr (spec_uptime_percent s monitor_id cutoff days)"
    using days
    by (simp add: get_uptime_percent_def window Let_def downtime_is_spec_downtime [OF inv]
        spec_uptime_percent_def)
  have c: "filter (\<lambda>i. inc_monitor_id i = monitor_id \<and> cutoff < inc_started_at i)
            (incidents s) = [] \<longrightarrow>
          get_uptime_percent t s monitor_id days = Inr 100"
    using days by (simp add: get_uptime_percent_def window Let_def sql_sum_def
        List.map_filter_simps)
  from a b c show ?thesis by blast
qed

theorem uptime_percent_formula_witness:
  "durations_inv store_history \<and>
   datetime_minus (101 * 86400000000) (5 * 86400000000) = Inr (96 * 86400000000) \<and>
   map inc_resolved_at (incidents store_history) = [Some (99 * 86400000000 + 43200000000), None] \<and>
   get_uptime_percent (101 * 86400000000) store_history ''m1'' 5 = Inr 90 \<and>
   get_uptime_percent (101 * 86400000000) store_history ''m2'' 5 = Inr 100"
proof -
  have i: "durations_inv store_history"
    by (simp add: durations_inv_def store_history_def mk_incident_def)
  have w: "datetime_minus (101 * 86400000000) (5 * 86400000000) = Inr (96 * 86400000000)"
    by (simp add: datetime_minus_def datetime_max_def)
  have d: "(5::int) \<noteq> 0" by simp
  have v: "spec_uptime_percent store_history ''m1'' (96 * 86400000000) 5 = 90"
    by (simp add: spec_uptime_percent_def spec_downtime_def store_history_def mk_incident_def)
  have e: "filter (\<lambda>i. inc_monitor_id i = ''m2'' \<and> 96 * 86400000000 < inc_started_at i)
            (incidents store_history) = []"
    by (simp add: store_history_def mk_incident_def)
  have r: "map inc_resolved_at (incidents store_history) =
      [Some (99 * 86400000000 + 43200000000), None]"
    by (simp add: store_history_def mk_incident_def)
  from uptime_percent_formula [OF i w d, of "''m1''"] v
  have a: "get_uptime_percent (101 * 86400000000) store_history ''m1'' 5 = Inr 90"
    by simp
  from uptime_percent_formula [OF i w d, of "''m2''"] e
  have b: "get_uptime_percent (101 * 86400000000) store_history ''m2'' 5 = Inr 100"
    by blast
  from i w r a b show ?thesis by simp
qed

subsection \<open>Average response time\<close>

text \<open>
  Claim C8. Over a window of \<open>hours\<close> hours (not reaching outside the range of
  \<^verbatim>\<open>datetime\<close>), \<^verbatim>\<open>get_response_time_avg\<close> returns the arithmetic mean of the
  response times that are not null, of the heartbeats of the monitor after the cutoff, and
  0 when there is no such response time (no heartbeat in the window, or null ones only).
\<close>

theorem response_time_avg_is_mean:
  assumes window: "datetime_minus t (hours * 3600000000) = Inr cutoff"
  shows "cutoff = t - hours * 3600000000 \<and>
         get_response_time_avg t s monitor_id hours =
           Inr (spec_mean (spec_response_times s monitor_id cutoff)) \<and>
         (spec_response_times s monitor_id cutoff = [] \<longrightarrow>
          get_response_time_avg t s monitor_id hours = Inr 0)"
proof -
  have a: "cutoff = t - hours * 3600000000"
    using datetime_minus_Inr [OF window] .
  have b: "get_response_time_avg t s monitor_id hours =
           Inr (spec_mean (spec_response_times s monitor_id cutoff))"
    using sql_avg_not_null [of hb_response_time_ms
        "\<lambda>h. hb_monitor_id h = monitor_id \<and> cutoff < hb_timestamp h" "heartbeats s"]
    by (simp add: get_response_time_avg_def window spec_response_times_def conj_assoc)
  from a b show ?thesis by (simp add: spec_mean_def)
qed

theorem response_time_avg_is_mean_witness:
  "datetime_minus (101 * 86400000000) (48 * 3600000000) = Inr (99 * 86400000000) \<and>
   map hb_response_time_ms (heartbeats store_history) = [Some 50, None, Some 40] \<and>
   get_response_time_avg (101 * 86400000000) store_history ''m1'' 48 = Inr 45 \<and>
   get_response_time_avg (101 * 86400000000) store_history ''m2'' 48 = Inr 0"
proof -
  have w: "datetime_minus (101 * 86400000000) (48 * 3600000000) = Inr (99 * 86400000000)"
    by (simp add: datetime_minus_def datetime_max_def)
  have v: "spec_response_times store_history ''m1'' (99 * 86400000000) = [50, 40]"
    by (simp add: spec_response_times_def store_history_def List.map_filter_simps)
  have e: "spec_response_times store_history ''m2'' (99 * 86400000000) = []"
    by (simp add: spec_response_times_def store_history_def List.map_filter_simps)
  have h: "map hb_response_time_ms (heartbeats store_history) = [Some 50, None, Some 40]"
    by (simp add: store_history_def)
  from response_time_avg_is_mean [OF w, of store_history "''m1''"] v
  have a: "get_response_time_avg (101 * 86400000000) store_history ''m1'' 48 = Inr 45"
    by (simp add: spec_mean_def)
  from response_time_avg_is_mean [OF w, of store_history "''m2''"] e
  have b: "get_response_time_avg (101 * 86400000000) store_history ''m2'' 48 = Inr 0"
    by blast
  from w h a b show ?thesis by simp
qed

subsection \<open>Resolving an incident again\<close>



end
